theory Spec2Isabelle
  imports Main "HOL-Library.Word" "HOL-Library.Code_Target_Numeral"
begin

unbundle bit_operations_syntax

section \<open>Bytes, errors and the cursor\<close>

text \<open>
  The deserializers of \<^verbatim>\<open>electrumx/lib/tx.py\<close> read an immutable \<^verbatim>\<open>bytes\<close> object
  through one mutable field, \<^verbatim>\<open>self.cursor\<close>. The embedding passes the buffer
  (\<open>bin\<close>, with \<^verbatim>\<open>self.binary_length\<close> being \<open>length bin\<close>) to every read and threads
  the cursor: a read takes the cursor and returns either the exception it raises or its
  value paired with the new cursor. The cursor is a natural number: the constructor's
  \<^verbatim>\<open>start\<close> is a non-negative offset and every update adds a non-negative amount.
  The \<^verbatim>\<open>assert\<close> statements are modelled as executed (raising \<^verbatim>\<open>AssertionError\<close>).
\<close>

type_synonym byte = "8 word"
type_synonym bytes = "byte list"

datatype error =
    IndexError          \<comment> \<open>\<^verbatim>\<open>self.binary[i]\<close> with \<open>i\<close> out of range\<close>
  | AssertionError      \<comment> \<open>a failed \<^verbatim>\<open>assert\<close>\<close>
  | StructError         \<comment> \<open>\<^verbatim>\<open>struct.error\<close> of an unpacker or packer\<close>
  | SkipTxDeserialize   \<comment> \<open>the exception class of the module\<close>
  | AttributeError      \<comment> \<open>a method the object's class does not have\<close>

type_synonym 'a rd = "error + ('a \<times> nat)"

definition bnd :: "'a rd \<Rightarrow> ('a \<Rightarrow> nat \<Rightarrow> error + 'b) \<Rightarrow> error + 'b" where
  "bnd r f = (case r of Inl e \<Rightarrow> Inl e | Inr (x, cursor) \<Rightarrow> f x cursor)"

text \<open>Python's \<^verbatim>\<open>binary[a:b]\<close> for non-negative \<open>a\<close> and \<open>b\<close>: it never raises and
  is cut at the end of the buffer.\<close>

definition bslice :: "bytes \<Rightarrow> nat \<Rightarrow> nat \<Rightarrow> bytes" where
  "bslice bin a b = take (b - a) (drop a bin)"

fun le_nat :: "bytes \<Rightarrow> nat" where
  "le_nat [] = 0"
| "le_nat (b # bs) = unat b + 256 * le_nat bs"

definition to_signed :: "nat \<Rightarrow> nat \<Rightarrow> int" where
  "to_signed bits u = (if u < 2 ^ (bits - 1) then int u else int u - 2 ^ bits)"

text \<open>
  Modelled from the spec: the unpackers of \<^verbatim>\<open>electrumx.lib.util\<close>
  (\<^verbatim>\<open>unpack_le_int32_from\<close> and its siblings) are imported by the module and are not part of
  the source at hand. The spec describes them as fixed-width little-endian reads (4-byte
  signed, 4-byte unsigned, 2-byte, 8-byte signed and unsigned) that fail when the requested
  span exceeds the remaining buffer; the failure is \<^verbatim>\<open>struct.error\<close>.
\<close>

definition unpack_le_uint_from :: "nat \<Rightarrow> bytes \<Rightarrow> nat \<Rightarrow> error + nat" where
  "unpack_le_uint_from width bin offset =
     (if offset + width \<le> length bin
      then Inr (le_nat (bslice bin offset (offset + width)))
      else Inl StructError)"

definition unpack_le_int_from :: "nat \<Rightarrow> bytes \<Rightarrow> nat \<Rightarrow> error + int" where
  "unpack_le_int_from width bin offset =
     (case unpack_le_uint_from width bin offset of
        Inl e \<Rightarrow> Inl e
      | Inr u \<Rightarrow> Inr (to_signed (8 * width) u))"

definition unpack_le_int32_from :: "bytes \<Rightarrow> nat \<Rightarrow> error + int" where
  "unpack_le_int32_from = unpack_le_int_from 4"

definition unpack_le_int64_from :: "bytes \<Rightarrow> nat \<Rightarrow> error + int" where
  "unpack_le_int64_from = unpack_le_int_from 8"

definition unpack_le_uint16_from :: "bytes \<Rightarrow> nat \<Rightarrow> error + nat" where
  "unpack_le_uint16_from = unpack_le_uint_from 2"

definition unpack_le_uint32_from :: "bytes \<Rightarrow> nat \<Rightarrow> error + nat" where
  "unpack_le_uint32_from = unpack_le_uint_from 4"

definition unpack_le_uint64_from :: "bytes \<Rightarrow> nat \<Rightarrow> error + nat" where
  "unpack_le_uint64_from = unpack_le_uint_from 8"

section \<open>The primitive reads of \<^verbatim>\<open>Deserializer\<close>\<close>

definition read_byte :: "bytes \<Rightarrow> nat \<Rightarrow> byte rd" where
  "read_byte bin cursor =
     (if cursor < length bin then Inr (bin ! cursor, cursor + 1) else Inl IndexError)"

definition read_nbytes :: "bytes \<Rightarrow> nat \<Rightarrow> nat \<Rightarrow> bytes rd" where
  "read_nbytes bin n cursor =
     (let end = cursor + n in
      if length bin \<ge> end then Inr (bslice bin cursor end, end) else Inl AssertionError)"

definition read_le_int32 :: "bytes \<Rightarrow> nat \<Rightarrow> int rd" where
  "read_le_int32 bin cursor =
     (case unpack_le_int32_from bin cursor of
        Inl e \<Rightarrow> Inl e | Inr result \<Rightarrow> Inr (result, cursor + 4))"

definition read_le_int64 :: "bytes \<Rightarrow> nat \<Rightarrow> int rd" where
  "read_le_int64 bin cursor =
     (case unpack_le_int64_from bin cursor of
        Inl e \<Rightarrow> Inl e | Inr result \<Rightarrow> Inr (result, cursor + 8))"

definition read_le_uint16 :: "bytes \<Rightarrow> nat \<Rightarrow> nat rd" where
  "read_le_uint16 bin cursor =
     (case unpack_le_uint16_from bin cursor of
        Inl e \<Rightarrow> Inl e | Inr result \<Rightarrow> Inr (result, cursor + 2))"

definition read_le_uint32 :: "bytes \<Rightarrow> nat \<Rightarrow> nat rd" where
  "read_le_uint32 bin cursor =
     (case unpack_le_uint32_from bin cursor of
        Inl e \<Rightarrow> Inl e | Inr result \<Rightarrow> Inr (result, cursor + 4))"

definition read_le_uint64 :: "bytes \<Rightarrow> nat \<Rightarrow> nat rd" where
  "read_le_uint64 bin cursor =
     (case unpack_le_uint64_from bin cursor of
        Inl e \<Rightarrow> Inl e | Inr result \<Rightarrow> Inr (result, cursor + 8))"

definition read_varint :: "bytes \<Rightarrow> nat \<Rightarrow> nat rd" where
  "read_varint bin cursor =
     (if cursor < length bin then
        (let n = bin ! cursor; cursor = cursor + 1 in
         if n < 253 then Inr (unat n, cursor)
         else if n = 253 then read_le_uint16 bin cursor
         else if n = 254 then read_le_uint32 bin cursor
         else read_le_uint64 bin cursor)
      else Inl IndexError)"

definition read_varbytes :: "bytes \<Rightarrow> nat \<Rightarrow> bytes rd" where
  "read_varbytes bin cursor =
     bnd (read_varint bin cursor) (\<lambda>n cursor. read_nbytes bin n cursor)"

text \<open>The comprehension \<^verbatim>\<open>[read() for _ in range(n)]\<close>: \<open>n\<close> reads in sequence, the
  first exception ending the loop.\<close>

primrec read_list :: "(nat \<Rightarrow> 'a rd) \<Rightarrow> nat \<Rightarrow> nat \<Rightarrow> 'a list rd" where
  "read_list read 0 cursor = Inr ([], cursor)"
| "read_list read (Suc n) cursor =
     bnd (read cursor) (\<lambda>x cursor.
     bnd (read_list read n cursor) (\<lambda>xs cursor. Inr (x # xs, cursor)))"

section \<open>The transaction data model\<close>

text \<open>The dataclasses of the module. \<^verbatim>\<open>TxOutput.value\<close> is the field \<open>amount\<close> here, and
  the fields of \<^verbatim>\<open>TxSegWit\<close> carry the prefix \<open>sw_\<close>, those of \<^verbatim>\<open>TxInputDcr\<close>,
  \<^verbatim>\<open>TxOutputDcr\<close> and \<^verbatim>\<open>TxDcr\<close> the prefixes \<open>dcri_\<close>, \<open>dcro_\<close> and \<open>dcr_\<close>.\<close>

record TxInput =
  prev_hash :: bytes
  prev_idx :: nat
  script :: bytes
  sequence :: nat

record TxOutput =
  amount :: int
  pk_script :: bytes

record Tx =
  version :: int
  inputs :: "TxInput list"
  outputs :: "TxOutput list"
  locktime :: nat

record TxSegWit =
  sw_version :: int
  sw_marker :: byte
  sw_flag :: byte
  sw_inputs :: "TxInput list"
  sw_outputs :: "TxOutput list"
  sw_witness :: "bytes list list"
  sw_locktime :: nat

text \<open>What \<^verbatim>\<open>_read_tx_parts\<close> of the SegWit family returns as its transaction: an object
  of class \<^verbatim>\<open>Tx\<close> or one of class \<^verbatim>\<open>TxSegWit\<close>.\<close>

datatype tx_obj = TxObj Tx | TxSegWitObj TxSegWit

record TxInputDcr =
  dcri_prev_hash :: bytes
  dcri_prev_idx :: nat
  dcri_tree :: byte
  dcri_sequence :: nat

record TxOutputDcr =
  dcro_value :: int
  dcro_version :: nat
  dcro_pk_script :: bytes

record TxDcr =
  dcr_version :: int
  dcr_inputs :: "TxInputDcr list"
  dcr_outputs :: "TxOutputDcr list"
  dcr_locktime :: nat
  dcr_expiry :: nat
  dcr_witness :: "(int \<times> nat \<times> nat \<times> bytes) list"

section \<open>\<^verbatim>\<open>Deserializer\<close>: inputs, outputs, transactions\<close>

definition read_input :: "bytes \<Rightarrow> nat \<Rightarrow> TxInput rd" where
  "read_input bin cursor =
     bnd (read_nbytes bin 32 cursor) (\<lambda>prev_hash cursor.
     bnd (read_le_uint32 bin cursor) (\<lambda>prev_idx cursor.
     bnd (read_varbytes bin cursor) (\<lambda>script cursor.
     bnd (read_le_uint32 bin cursor) (\<lambda>sequence cursor.
     Inr (\<lparr>prev_hash = prev_hash, prev_idx = prev_idx, script = script,
           sequence = sequence\<rparr>, cursor)))))"

definition read_output :: "bytes \<Rightarrow> nat \<Rightarrow> TxOutput rd" where
  "read_output bin cursor =
     bnd (read_le_int64 bin cursor) (\<lambda>value cursor.
     bnd (read_varbytes bin cursor) (\<lambda>pk_script cursor.
     Inr (\<lparr>amount = value, pk_script = pk_script\<rparr>, cursor)))"

text \<open>\<^verbatim>\<open>_read_inputs\<close> and \<^verbatim>\<open>_read_outputs\<close> call \<^verbatim>\<open>self._read_input\<close> and
  \<^verbatim>\<open>self._read_output\<close>, which a subclass may override: the reader of one element is a
  parameter.\<close>

definition read_inputs :: "(nat \<Rightarrow> 'i rd) \<Rightarrow> bytes \<Rightarrow> nat \<Rightarrow> 'i list rd" where
  "read_inputs read_input_fn bin cursor =
     bnd (read_varint bin cursor) (\<lambda>n cursor. read_list read_input_fn n cursor)"

definition read_outputs :: "(nat \<Rightarrow> 'o rd) \<Rightarrow> bytes \<Rightarrow> nat \<Rightarrow> 'o list rd" where
  "read_outputs read_output_fn bin cursor =
     bnd (read_varint bin cursor) (\<lambda>n cursor. read_list read_output_fn n cursor)"

definition read_tx :: "bytes \<Rightarrow> nat \<Rightarrow> Tx rd" where
  "read_tx bin cursor =
     bnd (read_le_int32 bin cursor) (\<lambda>version cursor.
     bnd (read_inputs (read_input bin) bin cursor) (\<lambda>inputs cursor.
     bnd (read_outputs (read_output bin) bin cursor) (\<lambda>outputs cursor.
     bnd (read_le_uint32 bin cursor) (\<lambda>locktime cursor.
     Inr (\<lparr>version = version, inputs = inputs, outputs = outputs,
           locktime = locktime\<rparr>, cursor)))))"

text \<open>\<^verbatim>\<open>TX_HASH_FN\<close> is a class attribute that forks rebind; it is the parameter
  \<open>hash_fn\<close>. The tuple \<^verbatim>\<open>(self.read_tx(), self.TX_HASH_FN(self.binary[start:self.cursor]))\<close>
  is evaluated left to right, so the slice ends at the cursor after the read.\<close>

definition read_tx_and_hash :: "(bytes \<Rightarrow> bytes) \<Rightarrow> bytes \<Rightarrow> nat \<Rightarrow> (Tx \<times> bytes) rd" where
  "read_tx_and_hash hash_fn bin cursor =
     (let start = cursor in
      bnd (read_tx bin cursor) (\<lambda>tx cursor.
      Inr ((tx, hash_fn (bslice bin start cursor)), cursor)))"

text \<open>
  Modelled from the spec: \<^verbatim>\<open>double_sha256\<close> of \<^verbatim>\<open>electrumx.lib.hash\<close>, the value of
  \<^verbatim>\<open>Deserializer.TX_HASH_FN\<close>, is not part of the source at hand; the spec calls it a
  256-bit double-hash built on the single hash, which is an external primitive and a
  parameter here.
\<close>

definition double_sha256 :: "(bytes \<Rightarrow> bytes) \<Rightarrow> bytes \<Rightarrow> bytes" where
  "double_sha256 sha256 x = sha256 (sha256 x)"

section \<open>\<^verbatim>\<open>DeserializerSegWit\<close>\<close>

definition read_witness_field :: "bytes \<Rightarrow> nat \<Rightarrow> bytes list rd" where
  "read_witness_field bin cursor =
     bnd (read_varint bin cursor) (\<lambda>n cursor. read_list (read_varbytes bin) n cursor)"

definition read_witness :: "bytes \<Rightarrow> nat \<Rightarrow> nat \<Rightarrow> bytes list list rd" where
  "read_witness bin n_fields cursor = read_list (read_witness_field bin) n_fields cursor"

text \<open>\<^verbatim>\<open>_read_tx_parts\<close> returns the triple (transaction, hash, vsize). The local
  variables \<^verbatim>\<open>start\<close>, \<^verbatim>\<open>marker\<close> and \<^verbatim>\<open>orig_ser\<close> are rebound as in the source.
  \<^verbatim>\<open>self.cursor - start\<close> is a difference of a later and an earlier cursor.\<close>

definition segwit_read_tx_parts ::
  "(bytes \<Rightarrow> bytes) \<Rightarrow> bytes \<Rightarrow> nat \<Rightarrow> (tx_obj \<times> bytes \<times> nat) rd" where
  "segwit_read_tx_parts hash_fn bin cursor =
     (let start = cursor in
      if cursor + 4 < length bin then
        (let marker = bin ! (cursor + 4) in
         if marker \<noteq> 0 then
           bnd (read_le_int32 bin cursor) (\<lambda>version cursor.
           bnd (read_inputs (read_input bin) bin cursor) (\<lambda>inputs cursor.
           bnd (read_outputs (read_output bin) bin cursor) (\<lambda>outputs cursor.
           bnd (read_le_uint32 bin cursor) (\<lambda>locktime cursor.
           let tx = \<lparr>version = version, inputs = inputs, outputs = outputs,
                      locktime = locktime\<rparr>;
               tx_hash = hash_fn (bslice bin start cursor)
           in Inr ((TxObj tx, tx_hash, length bin), cursor)))))
         else
           bnd (read_le_int32 bin cursor) (\<lambda>version cursor.
           let orig_ser = bslice bin start cursor in
           bnd (read_byte bin cursor) (\<lambda>marker cursor.
           bnd (read_byte bin cursor) (\<lambda>flag cursor.
           let start = cursor in
           bnd (read_inputs (read_input bin) bin cursor) (\<lambda>inputs cursor.
           bnd (read_outputs (read_output bin) bin cursor) (\<lambda>outputs cursor.
           let orig_ser = orig_ser @ bslice bin start cursor;
               base_size = cursor - start in
           bnd (read_witness bin (length inputs) cursor) (\<lambda>witness cursor.
           let start = cursor in
           bnd (read_le_uint32 bin cursor) (\<lambda>locktime cursor.
           let orig_ser = orig_ser @ bslice bin start cursor;
               vsize = (3 * base_size + length bin) div 4
           in Inr ((TxSegWitObj \<lparr>sw_version = version, sw_marker = marker, sw_flag = flag,
                      sw_inputs = inputs, sw_outputs = outputs, sw_witness = witness,
                      sw_locktime = locktime\<rparr>, hash_fn orig_ser, vsize), cursor)))))))))
      else Inl IndexError)"

definition segwit_read_tx :: "(bytes \<Rightarrow> bytes) \<Rightarrow> bytes \<Rightarrow> nat \<Rightarrow> tx_obj rd" where
  "segwit_read_tx hash_fn bin cursor =
     bnd (segwit_read_tx_parts hash_fn bin cursor) (\<lambda>(tx, tx_hash, vsize) cursor.
     Inr (tx, cursor))"

definition segwit_read_tx_and_hash ::
  "(bytes \<Rightarrow> bytes) \<Rightarrow> bytes \<Rightarrow> nat \<Rightarrow> (tx_obj \<times> bytes) rd" where
  "segwit_read_tx_and_hash hash_fn bin cursor =
     bnd (segwit_read_tx_parts hash_fn bin cursor) (\<lambda>(tx, tx_hash, vsize) cursor.
     Inr ((tx, tx_hash), cursor))"

definition segwit_read_tx_and_vsize ::
  "(bytes \<Rightarrow> bytes) \<Rightarrow> bytes \<Rightarrow> nat \<Rightarrow> (tx_obj \<times> nat) rd" where
  "segwit_read_tx_and_vsize hash_fn bin cursor =
     bnd (segwit_read_tx_parts hash_fn bin cursor) (\<lambda>(tx, tx_hash, vsize) cursor.
     Inr ((tx, vsize), cursor))"

section \<open>\<^verbatim>\<open>DeserializerLitecoin\<close>\<close>

text \<open>The two \<^verbatim>\<open>raise SkipTxDeserialize\<close> statements are the two \<open>Inl SkipTxDeserialize\<close>
  below; \<^verbatim>\<open>flag & 1\<close> and \<^verbatim>\<open>flag & 8\<close> are tested for being nonzero.\<close>

definition litecoin_read_tx_parts ::
  "(bytes \<Rightarrow> bytes) \<Rightarrow> bytes \<Rightarrow> nat \<Rightarrow> (tx_obj \<times> bytes \<times> nat) rd" where
  "litecoin_read_tx_parts hash_fn bin cursor =
     (let start = cursor in
      if cursor + 4 < length bin then
        (let marker = bin ! (cursor + 4) in
         if marker \<noteq> 0 then
           bnd (read_le_int32 bin cursor) (\<lambda>version cursor.
           bnd (read_inputs (read_input bin) bin cursor) (\<lambda>inputs cursor.
           bnd (read_outputs (read_output bin) bin cursor) (\<lambda>outputs cursor.
           bnd (read_le_uint32 bin cursor) (\<lambda>locktime cursor.
           let tx = \<lparr>version = version, inputs = inputs, outputs = outputs,
                      locktime = locktime\<rparr>;
               tx_hash = hash_fn (bslice bin start cursor)
           in Inr ((TxObj tx, tx_hash, length bin), cursor)))))
         else
           bnd (read_le_int32 bin cursor) (\<lambda>version cursor.
           let orig_ser = bslice bin start cursor in
           bnd (read_byte bin cursor) (\<lambda>marker cursor.
           bnd (read_byte bin cursor) (\<lambda>flag cursor.
           if flag = 0 then Inl SkipTxDeserialize
           else
             (let start = cursor in
              bnd (read_inputs (read_input bin) bin cursor) (\<lambda>inputs cursor.
              bnd (read_outputs (read_output bin) bin cursor) (\<lambda>outputs cursor.
              let orig_ser = orig_ser @ bslice bin start cursor;
                  base_size = cursor - start in
              bnd (if flag AND 1 \<noteq> 0 then read_witness bin (length inputs) cursor
                   else Inr ([], cursor)) (\<lambda>witness cursor.
              bnd (if flag AND 8 \<noteq> 0 then
                     bnd (read_byte bin cursor) (\<lambda>mwtx cursor.
                     if mwtx \<noteq> 0 then Inl SkipTxDeserialize else Inr ((), cursor))
                   else Inr ((), cursor)) (\<lambda>_ cursor.
              let start = cursor in
              bnd (read_le_uint32 bin cursor) (\<lambda>locktime cursor.
              let orig_ser = orig_ser @ bslice bin start cursor;
                  vsize = (3 * base_size + length bin) div 4
              in Inr ((TxSegWitObj \<lparr>sw_version = version, sw_marker = marker,
                         sw_flag = flag, sw_inputs = inputs, sw_outputs = outputs,
                         sw_witness = witness, sw_locktime = locktime\<rparr>,
                       hash_fn orig_ser, vsize), cursor)))))))))))
      else Inl IndexError)"

definition litecoin_read_tx :: "(bytes \<Rightarrow> bytes) \<Rightarrow> bytes \<Rightarrow> nat \<Rightarrow> tx_obj rd" where
  "litecoin_read_tx hash_fn bin cursor =
     bnd (litecoin_read_tx_parts hash_fn bin cursor) (\<lambda>(tx, tx_hash, vsize) cursor.
     Inr (tx, cursor))"

section \<open>Header extractors: \<^verbatim>\<open>DeserializerEquihash\<close> and \<^verbatim>\<open>DeserializerPrimecoin\<close>\<close>

text \<open>\<^verbatim>\<open>self.cursor += n\<close> is an unchecked addition. The last line of the Equihash
  extractor is \<^verbatim>\<open>self._read_nbytes(header_end)\<close>, that of the Primecoin extractor
  \<^verbatim>\<open>self._read_nbytes(header_end - start)\<close>.\<close>

definition equihash_read_header :: "bytes \<Rightarrow> nat \<Rightarrow> nat \<Rightarrow> bytes rd" where
  "equihash_read_header bin static_header_size cursor =
     (let start = cursor;
          cursor = cursor + static_header_size in
      bnd (read_varint bin cursor) (\<lambda>solution_size cursor.
      let cursor = cursor + solution_size;
          header_end = cursor;
          cursor = start
      in read_nbytes bin header_end cursor))"

definition primecoin_read_header :: "bytes \<Rightarrow> nat \<Rightarrow> nat \<Rightarrow> bytes rd" where
  "primecoin_read_header bin static_header_size cursor =
     (let start = cursor;
          cursor = cursor + static_header_size in
      bnd (read_varint bin cursor) (\<lambda>multiplier_size cursor.
      let cursor = cursor + multiplier_size;
          header_end = cursor;
          cursor = start
      in read_nbytes bin (header_end - start) cursor))"

section \<open>Packing, and \<^verbatim>\<open>serialize\<close>\<close>

text \<open>
  Modelled from the spec: the packers of \<^verbatim>\<open>electrumx.lib.util\<close> (\<^verbatim>\<open>pack_le_int32\<close>,
  \<^verbatim>\<open>pack_le_uint32\<close>, \<^verbatim>\<open>pack_le_int64\<close>, \<^verbatim>\<open>pack_varint\<close>, \<^verbatim>\<open>pack_varbytes\<close>) are imported
  by the module and are not part of the source at hand. The spec describes fixed-width
  little-endian fields, a compact integer that takes the smallest of the four width classes
  (1, 3, 5 or 9 bytes) for its magnitude, and a byte string prefixed by its length as such
  an integer. A value outside the range of a fixed-width field is \<^verbatim>\<open>struct.error\<close>.
\<close>

primrec le_bytes :: "nat \<Rightarrow> nat \<Rightarrow> bytes" where
  "le_bytes 0 v = []"
| "le_bytes (Suc width) v = of_nat (v mod 256) # le_bytes width (v div 256)"

definition pack_le_uint :: "nat \<Rightarrow> nat \<Rightarrow> error + bytes" where
  "pack_le_uint width v =
     (if v < 2 ^ (8 * width) then Inr (le_bytes width v) else Inl StructError)"

definition pack_le_int :: "nat \<Rightarrow> int \<Rightarrow> error + bytes" where
  "pack_le_int width v =
     (if - (2 ^ (8 * width - 1)) \<le> v \<and> v < 2 ^ (8 * width - 1)
      then Inr (le_bytes width (nat (v mod 2 ^ (8 * width))))
      else Inl StructError)"

definition pack_le_int32 :: "int \<Rightarrow> error + bytes" where
  "pack_le_int32 = pack_le_int 4"

definition pack_le_int64 :: "int \<Rightarrow> error + bytes" where
  "pack_le_int64 = pack_le_int 8"

definition pack_le_uint16 :: "nat \<Rightarrow> error + bytes" where
  "pack_le_uint16 = pack_le_uint 2"

definition pack_le_uint32 :: "nat \<Rightarrow> error + bytes" where
  "pack_le_uint32 = pack_le_uint 4"

definition pack_le_uint64 :: "nat \<Rightarrow> error + bytes" where
  "pack_le_uint64 = pack_le_uint 8"

definition ebind :: "error + 'a \<Rightarrow> ('a \<Rightarrow> error + 'b) \<Rightarrow> error + 'b" where
  "ebind r f = (case r of Inl e \<Rightarrow> Inl e | Inr x \<Rightarrow> f x)"

definition pack_varint :: "nat \<Rightarrow> error + bytes" where
  "pack_varint n =
     (if n < 253 then pack_le_uint 1 n
      else if n < 65536 then ebind (pack_le_uint16 n) (\<lambda>b. Inr (253 # b))
      else if n < 4294967296 then ebind (pack_le_uint32 n) (\<lambda>b. Inr (254 # b))
      else ebind (pack_le_uint64 n) (\<lambda>b. Inr (255 # b)))"

definition pack_varbytes :: "bytes \<Rightarrow> error + bytes" where
  "pack_varbytes data = ebind (pack_varint (length data)) (\<lambda>b. Inr (b @ data))"

text \<open>The \<^verbatim>\<open>serialize\<close> methods of \<^verbatim>\<open>TxInput\<close>, \<^verbatim>\<open>TxOutput\<close> and \<^verbatim>\<open>Tx\<close>. The parts of a
  \<^verbatim>\<open>b''.join((...))\<close> are evaluated left to right; \<open>join_serialized\<close> is the join over the
  generator \<^verbatim>\<open>(x.serialize() for x in xs)\<close>.\<close>

definition TxInput_serialize :: "TxInput \<Rightarrow> error + bytes" where
  "TxInput_serialize tx_in =
     ebind (pack_le_uint32 (prev_idx tx_in)) (\<lambda>b_prev_idx.
     ebind (pack_varbytes (script tx_in)) (\<lambda>b_script.
     ebind (pack_le_uint32 (sequence tx_in)) (\<lambda>b_sequence.
     Inr (prev_hash tx_in @ b_prev_idx @ b_script @ b_sequence))))"

definition TxOutput_serialize :: "TxOutput \<Rightarrow> error + bytes" where
  "TxOutput_serialize tx_out =
     ebind (pack_le_int64 (amount tx_out)) (\<lambda>b_value.
     ebind (pack_varbytes (pk_script tx_out)) (\<lambda>b_script.
     Inr (b_value @ b_script)))"

primrec join_serialized :: "('a \<Rightarrow> error + bytes) \<Rightarrow> 'a list \<Rightarrow> error + bytes" where
  "join_serialized ser [] = Inr []"
| "join_serialized ser (x # xs) =
     ebind (ser x) (\<lambda>b. ebind (join_serialized ser xs) (\<lambda>bs. Inr (b @ bs)))"

definition Tx_serialize :: "Tx \<Rightarrow> error + bytes" where
  "Tx_serialize tx =
     ebind (pack_le_int32 (version tx)) (\<lambda>b_version.
     ebind (pack_varint (length (inputs tx))) (\<lambda>b_n_in.
     ebind (join_serialized TxInput_serialize (inputs tx)) (\<lambda>b_inputs.
     ebind (pack_varint (length (outputs tx))) (\<lambda>b_n_out.
     ebind (join_serialized TxOutput_serialize (outputs tx)) (\<lambda>b_outputs.
     ebind (pack_le_uint32 (locktime tx)) (\<lambda>b_locktime.
     Inr (b_version @ b_n_in @ b_inputs @ b_n_out @ b_outputs @ b_locktime)))))))"

text \<open>The call \<^verbatim>\<open>tx.serialize()\<close> on what a deserializer returned: class \<^verbatim>\<open>Tx\<close> defines
  the method, the dataclass \<^verbatim>\<open>TxSegWit\<close> (slots only, no base class) does not, and the
  attribute lookup raises.\<close>

fun serialize_obj :: "tx_obj \<Rightarrow> error + bytes" where
  "serialize_obj (TxObj tx) = Tx_serialize tx"
| "serialize_obj (TxSegWitObj tx) = Inl AttributeError"

section \<open>\<^verbatim>\<open>DeserializerDecred\<close>\<close>

text \<open>\<^verbatim>\<open>blake_hash\<close> comes from the external package \<^verbatim>\<open>blake256\<close> and is a parameter.\<close>

definition blake256 :: "(bytes \<Rightarrow> bytes) \<Rightarrow> bytes \<Rightarrow> bytes" where
  "blake256 blake_hash data = blake_hash data"

definition blake256d :: "(bytes \<Rightarrow> bytes) \<Rightarrow> bytes \<Rightarrow> bytes" where
  "blake256d blake_hash data = blake_hash (blake_hash data)"

definition dcr_read_input :: "bytes \<Rightarrow> nat \<Rightarrow> TxInputDcr rd" where
  "dcr_read_input bin cursor =
     bnd (read_nbytes bin 32 cursor) (\<lambda>prev_hash cursor.
     bnd (read_le_uint32 bin cursor) (\<lambda>prev_idx cursor.
     bnd (read_byte bin cursor) (\<lambda>tree cursor.
     bnd (read_le_uint32 bin cursor) (\<lambda>sequence cursor.
     Inr (\<lparr>dcri_prev_hash = prev_hash, dcri_prev_idx = prev_idx, dcri_tree = tree,
           dcri_sequence = sequence\<rparr>, cursor)))))"

definition dcr_read_output :: "bytes \<Rightarrow> nat \<Rightarrow> TxOutputDcr rd" where
  "dcr_read_output bin cursor =
     bnd (read_le_int64 bin cursor) (\<lambda>value cursor.
     bnd (read_le_uint16 bin cursor) (\<lambda>version cursor.
     bnd (read_varbytes bin cursor) (\<lambda>pk_script cursor.
     Inr (\<lparr>dcro_value = value, dcro_version = version, dcro_pk_script = pk_script\<rparr>,
          cursor))))"

definition dcr_read_witness_field :: "bytes \<Rightarrow> nat \<Rightarrow> (int \<times> nat \<times> nat \<times> bytes) rd" where
  "dcr_read_witness_field bin cursor =
     bnd (read_le_int64 bin cursor) (\<lambda>value_in cursor.
     bnd (read_le_uint32 bin cursor) (\<lambda>block_height cursor.
     bnd (read_le_uint32 bin cursor) (\<lambda>block_index cursor.
     bnd (read_varbytes bin cursor) (\<lambda>script cursor.
     Inr ((value_in, block_height, block_index, script), cursor)))))"

text \<open>\<^verbatim>\<open>assert fields == self._read_varint()\<close> reads the count, then compares.\<close>

definition dcr_read_witness ::
  "bytes \<Rightarrow> nat \<Rightarrow> nat \<Rightarrow> (int \<times> nat \<times> nat \<times> bytes) list rd" where
  "dcr_read_witness bin n_fields cursor =
     bnd (read_varint bin cursor) (\<lambda>n cursor.
     if n_fields = n then read_list (dcr_read_witness_field bin) n_fields cursor
     else Inl AssertionError)"

text \<open>\<^verbatim>\<open>version & 0xffff\<close> on a Python integer is the two's-complement conjunction, as
  \<open>AND\<close> on \<open>int\<close> is; the header value lies between \<open>0x10000\<close> and \<open>0x1ffff\<close>.\<close>

definition dcr_read_tx_parts ::
  "(bytes \<Rightarrow> bytes) \<Rightarrow> bool \<Rightarrow> bytes \<Rightarrow> nat \<Rightarrow> (TxDcr \<times> bytes option \<times> nat) rd" where
  "dcr_read_tx_parts blake_hash produce_hash bin cursor =
     (let start = cursor in
      bnd (read_le_int32 bin cursor) (\<lambda>version cursor.
      bnd (read_inputs (dcr_read_input bin) bin cursor) (\<lambda>inputs cursor.
      bnd (read_outputs (dcr_read_output bin) bin cursor) (\<lambda>outputs cursor.
      bnd (read_le_uint32 bin cursor) (\<lambda>locktime cursor.
      bnd (read_le_uint32 bin cursor) (\<lambda>expiry cursor.
      let end_prefix = cursor in
      bnd (dcr_read_witness bin (length inputs) cursor) (\<lambda>witness cursor.
      ebind (if produce_hash then
               ebind (pack_le_uint32 (nat (0x10000 OR (version AND 0xffff))))
                 (\<lambda>no_witness_header.
               let prefix_tx = no_witness_header @ bslice bin (start + 4) end_prefix in
               Inr (Some (blake256 blake_hash prefix_tx)))
             else Inr None) (\<lambda>tx_hash.
      Inr ((\<lparr>dcr_version = version, dcr_inputs = inputs, dcr_outputs = outputs,
              dcr_locktime = locktime, dcr_expiry = expiry, dcr_witness = witness\<rparr>,
            tx_hash, cursor - start), cursor)))))))))"

definition dcr_read_tx_and_hash ::
  "(bytes \<Rightarrow> bytes) \<Rightarrow> bytes \<Rightarrow> nat \<Rightarrow> (TxDcr \<times> bytes option) rd" where
  "dcr_read_tx_and_hash blake_hash bin cursor =
     bnd (dcr_read_tx_parts blake_hash True bin cursor) (\<lambda>(tx, tx_hash, vsize) cursor.
     Inr ((tx, tx_hash), cursor))"

section \<open>\<^verbatim>\<open>DeserializerZcash\<close>\<close>

text \<open>\<^verbatim>\<open>read_tx\<close> of the Zcash deserializer. Every \<^verbatim>\<open>self.cursor += n\<close> is an addition with
  no check. \<^verbatim>\<open>nVersionGroupId\<close> is bound only when the header is overwintered, and is read
  only behind \<^verbatim>\<open>overwintered and\<close>.\<close>

definition ZIP225_VERSION_GROUP_ID :: nat where
  "ZIP225_VERSION_GROUP_ID = 0x26A7270A"

definition ZIP225_TX_VERSION :: nat where
  "ZIP225_TX_VERSION = 5"

definition zcash_read_tx :: "bytes \<Rightarrow> nat \<Rightarrow> Tx rd" where
  "zcash_read_tx bin cursor =
     bnd (read_le_uint32 bin cursor) (\<lambda>header cursor.
     let overwintered = (drop_bit 31 header = 1) in
     bnd (if overwintered then
            bnd (read_le_uint32 bin cursor) (\<lambda>nVersionGroupId cursor.
            Inr ((header AND 0x7fffffff, Some nVersionGroupId), cursor))
          else Inr ((header, None), cursor)) (\<lambda>(version, nVersionGroupId) cursor.
     let is_overwinter_v3 = (version = 3);
         is_sapling_v4 = (version = 4);
         is_zip225_v5 = (overwintered \<and> nVersionGroupId = Some ZIP225_VERSION_GROUP_ID
                           \<and> version = ZIP225_TX_VERSION)
     in
     if \<not> is_zip225_v5 then
       bnd (read_inputs (read_input bin) bin cursor) (\<lambda>inputs cursor.
       bnd (read_outputs (read_output bin) bin cursor) (\<lambda>outputs cursor.
       bnd (read_le_uint32 bin cursor) (\<lambda>locktime cursor.
       let base_tx = \<lparr>version = int version, inputs = inputs, outputs = outputs,
                       locktime = locktime\<rparr>;
           cursor = (if is_overwinter_v3 \<or> is_sapling_v4 then cursor + 4 else cursor)
       in
       bnd (if is_sapling_v4 then
              (let cursor = cursor + 8 in
               bnd (read_varint bin cursor) (\<lambda>shielded_spend_size cursor.
               let cursor = cursor + shielded_spend_size * 384 in
               bnd (read_varint bin cursor) (\<lambda>shielded_output_size cursor.
               let cursor = cursor + shielded_output_size * 948 in
               Inr (shielded_spend_size > 0 \<or> shielded_output_size > 0, cursor))))
            else Inr (False, cursor)) (\<lambda>has_shielded cursor.
       bnd (if Tx.version base_tx \<ge> 2 then
              bnd (read_varint bin cursor) (\<lambda>joinsplit_size cursor.
              if joinsplit_size > 0 then
                (let joinsplit_desc_len = 1506 + (if is_sapling_v4 then 192 else 296);
                     cursor = cursor + joinsplit_size * joinsplit_desc_len;
                     cursor = cursor + 32;
                     cursor = cursor + 64
                 in Inr ((), cursor))
              else Inr ((), cursor))
            else Inr ((), cursor)) (\<lambda>_ cursor.
       let cursor = (if is_sapling_v4 \<and> has_shielded then cursor + 64 else cursor)
       in Inr (base_tx, cursor))))))
     else
       bnd (read_le_uint32 bin cursor) (\<lambda>nConsensusBranchId cursor.
       bnd (read_le_uint32 bin cursor) (\<lambda>nLockTime cursor.
       let cursor = cursor + 4 in
       bnd (read_inputs (read_input bin) bin cursor) (\<lambda>inputs cursor.
       bnd (read_outputs (read_output bin) bin cursor) (\<lambda>outputs cursor.
       let base_tx = \<lparr>version = int version, inputs = inputs, outputs = outputs,
                       locktime = nLockTime\<rparr>
       in
       bnd (read_varint bin cursor) (\<lambda>nSpendsSapling cursor.
       let cursor = cursor + 96 * nSpendsSapling in
       bnd (read_varint bin cursor) (\<lambda>nOutputsSapling cursor.
       let cursor = cursor + 756 * nOutputsSapling;
           hasSapling = (\<not> (nSpendsSapling = 0 \<and> nOutputsSapling = 0));
           cursor = (if hasSapling then cursor + 8 else cursor);
           cursor = (if \<not> nSpendsSapling = 0 then cursor + 32 else cursor);
           cursor = cursor + 192 * nSpendsSapling;
           cursor = cursor + 64 * nSpendsSapling;
           cursor = cursor + 192 * nOutputsSapling;
           cursor = (if hasSapling then cursor + 64 else cursor)
       in
       bnd (read_varint bin cursor) (\<lambda>nActionsOrchard cursor.
       let cursor = cursor + 820 * nActionsOrchard in
       if nActionsOrchard > 0 then
         (let cursor = cursor + 1;
              cursor = cursor + 8;
              cursor = cursor + 32
          in
          bnd (read_varint bin cursor) (\<lambda>sizeProofsOrchard cursor.
          let cursor = cursor + sizeProofsOrchard;
              cursor = cursor + 64 * nActionsOrchard;
              cursor = cursor + 64
          in Inr (base_tx, cursor)))
       else Inr (base_tx, cursor))))))))))"

section \<open>Basic facts about the reads\<close>

lemma bnd_Inl [simp]: "bnd (Inl e) f = Inl e"
  by (simp add: bnd_def)

lemma bnd_Inr [simp]: "bnd (Inr (x, c)) f = f x c"
  by (simp add: bnd_def)

lemma bnd_eq_Inr:
  "bnd r f = Inr y \<longleftrightarrow> (\<exists>x c. r = Inr (x, c) \<and> f x c = Inr y)"
  by (cases r) (auto simp: bnd_def)

lemma length_bslice: "b \<le> length bin \<Longrightarrow> length (bslice bin a b) = b - a"
  by (simp add: bslice_def)

lemma read_le_uint16_eq:
  "read_le_uint16 bin c =
     (if c + 2 \<le> length bin then Inr (le_nat (bslice bin c (c + 2)), c + 2) else Inl StructError)"
  by (simp add: read_le_uint16_def unpack_le_uint16_from_def unpack_le_uint_from_def)

lemma read_le_uint32_eq:
  "read_le_uint32 bin c =
     (if c + 4 \<le> length bin then Inr (le_nat (bslice bin c (c + 4)), c + 4) else Inl StructError)"
  by (simp add: read_le_uint32_def unpack_le_uint32_from_def unpack_le_uint_from_def)

lemma read_le_uint64_eq:
  "read_le_uint64 bin c =
     (if c + 8 \<le> length bin then Inr (le_nat (bslice bin c (c + 8)), c + 8) else Inl StructError)"
  by (simp add: read_le_uint64_def unpack_le_uint64_from_def unpack_le_uint_from_def)

lemma read_le_int32_eq:
  "read_le_int32 bin c =
     (if c + 4 \<le> length bin then Inr (to_signed 32 (le_nat (bslice bin c (c + 4))), c + 4)
      else Inl StructError)"
  by (simp add: read_le_int32_def unpack_le_int32_from_def unpack_le_int_from_def
      unpack_le_uint_from_def)

lemma read_le_int64_eq:
  "read_le_int64 bin c =
     (if c + 8 \<le> length bin then Inr (to_signed 64 (le_nat (bslice bin c (c + 8))), c + 8)
      else Inl StructError)"
  by (simp add: read_le_int64_def unpack_le_int64_from_def unpack_le_int_from_def
      unpack_le_uint_from_def)

section \<open>The variable-length integer\<close>

text \<open>
  C9. With enough bytes left, \<^verbatim>\<open>_read_varint\<close> reads one byte \<open>n\<close> and returns \<open>n\<close> itself
  when \<open>n < 253\<close>, the next 2 bytes as a little-endian integer when \<open>n = 253\<close>, the next 4
  bytes when \<open>n = 254\<close> and the next 8 bytes otherwise (\<open>n = 255\<close>); the cursor advances by
  exactly 1, 3, 5 or 9. Nothing in the result depends on the encoding being the shortest
  one: the wide forms are accepted whatever value their payload holds.
\<close>

theorem read_varint_width_classes:
  assumes "cursor < length bin"
  shows "(bin ! cursor < 253 \<longrightarrow>
            read_varint bin cursor = Inr (unat (bin ! cursor), cursor + 1))
       \<and> (bin ! cursor = 253 \<and> cursor + 3 \<le> length bin \<longrightarrow>
            read_varint bin cursor =
              Inr (le_nat (bslice bin (cursor + 1) (cursor + 3)), cursor + 3))
       \<and> (bin ! cursor = 254 \<and> cursor + 5 \<le> length bin \<longrightarrow>
            read_varint bin cursor =
              Inr (le_nat (bslice bin (cursor + 1) (cursor + 5)), cursor + 5))
       \<and> (bin ! cursor \<noteq> 253 \<and> bin ! cursor \<noteq> 254 \<and> \<not> bin ! cursor < 253
            \<and> cursor + 9 \<le> length bin \<longrightarrow>
            bin ! cursor = 255 \<and>
            read_varint bin cursor =
              Inr (le_nat (bslice bin (cursor + 1) (cursor + 9)), cursor + 9))"
proof -
  have top: "b = 255" if "b \<noteq> 253" "b \<noteq> 254" "\<not> b < 253" for b :: byte
  proof -
    have "unat b < 256" using unsigned_less [of b] by simp
    moreover have "unat b \<noteq> 253" "unat b \<noteq> 254" "\<not> unat b < 253"
      using that by (auto simp: word_less_nat_alt word_unat_eq_iff)
    ultimately have "unat b = 255" by arith
    then show ?thesis by (simp add: word_unat_eq_iff)
  qed
  have ends: "cursor + 1 + 2 = cursor + 3" "cursor + 1 + 4 = cursor + 5"
    "cursor + 1 + 8 = cursor + 9"
    by simp_all
  show ?thesis
    using assms top [of "bin ! cursor"]
    unfolding read_varint_def Let_def read_le_uint16_eq read_le_uint32_eq
      read_le_uint64_eq ends
    by auto
qed

theorem read_varint_width_classes_witness:
  "read_varint [253, 1, 0, 7] 0 = Inr (1, 3)"
  using read_varint_width_classes [of 0 "[253, 1, 0, 7]"]
  by (simp add: bslice_def)

section \<open>Evaluating the reads on a concrete buffer\<close>

lemma read_list_numeral:
  "read_list f (numeral k) c = read_list f (Suc (pred_numeral k)) c"
  by (simp add: numeral_eq_Suc)

lemmas rd_eval = read_byte_def read_nbytes_def read_varint_def read_varbytes_def
  read_le_uint16_eq read_le_uint32_eq read_le_uint64_eq read_le_int32_eq read_le_int64_eq
  bslice_def to_signed_def read_inputs_def read_outputs_def read_input_def read_output_def
  read_witness_def read_witness_field_def read_list_numeral Let_def

lemma read_tx_and_hash_coinbase:
  "read_tx_and_hash id
     [1,0,0,0, 1, 0,0,0,0,0,0,0,0,0,0,0,0,0,0,0,0,0,0,0,0,0,0,0,0,0,0,0,0,0,0,0,0,
      255,255,255,255, 0, 255,255,255,255, 1, 0,242,5,42,1,0,0,0, 1, 81, 0,0,0,0] 0 =
   Inr ((\<lparr>version = 1,
           inputs = [\<lparr>prev_hash = [0,0,0,0,0,0,0,0,0,0,0,0,0,0,0,0,0,0,0,0,0,0,0,0,0,0,0,0,0,0,0,0],
                      prev_idx = 4294967295, script = [], sequence = 4294967295\<rparr>],
           outputs = [\<lparr>amount = 5000000000, pk_script = [81]\<rparr>],
           locktime = 0\<rparr>,
         [1,0,0,0, 1, 0,0,0,0,0,0,0,0,0,0,0,0,0,0,0,0,0,0,0,0,0,0,0,0,0,0,0,0,0,0,0,0,
          255,255,255,255, 0, 255,255,255,255, 1, 0,242,5,42,1,0,0,0, 1, 81, 0,0,0,0]), 61)"
  by (simp add: read_tx_and_hash_def read_tx_def rd_eval)

section \<open>The legacy branch of the SegWit deserializer\<close>

text \<open>
  C10. When the byte at offset \<open>start + 4\<close> is nonzero, \<^verbatim>\<open>DeserializerSegWit.read_tx_and_hash\<close>
  returns what \<^verbatim>\<open>Deserializer.read_tx_and_hash\<close> returns on the same buffer and start: the
  same transaction (an object of class \<^verbatim>\<open>Tx\<close>), the same hash, the same final cursor, and
  the same exception when the base deserializer raises one.
\<close>

theorem segwit_legacy_branch_is_base:
  assumes "cursor + 4 < length bin" and "bin ! (cursor + 4) \<noteq> 0"
  shows "segwit_read_tx_and_hash hash_fn bin cursor =
           bnd (read_tx_and_hash hash_fn bin cursor) (\<lambda>(tx, tx_hash) cursor.
             Inr ((TxObj tx, tx_hash), cursor))"
  using assms
  by (simp add: segwit_read_tx_and_hash_def segwit_read_tx_parts_def read_tx_and_hash_def
      read_tx_def Let_def bnd_def split: sum.splits prod.splits)

theorem segwit_legacy_branch_is_base_witness:
  "segwit_read_tx_and_hash id
     [1,0,0,0, 1, 0,0,0,0,0,0,0,0,0,0,0,0,0,0,0,0,0,0,0,0,0,0,0,0,0,0,0,0,0,0,0,0,
      255,255,255,255, 0, 255,255,255,255, 1, 0,242,5,42,1,0,0,0, 1, 81, 0,0,0,0] 0 =
   Inr ((TxObj \<lparr>version = 1,
           inputs = [\<lparr>prev_hash = [0,0,0,0,0,0,0,0,0,0,0,0,0,0,0,0,0,0,0,0,0,0,0,0,0,0,0,0,0,0,0,0],
                      prev_idx = 4294967295, script = [], sequence = 4294967295\<rparr>],
           outputs = [\<lparr>amount = 5000000000, pk_script = [81]\<rparr>],
           locktime = 0\<rparr>,
         [1,0,0,0, 1, 0,0,0,0,0,0,0,0,0,0,0,0,0,0,0,0,0,0,0,0,0,0,0,0,0,0,0,0,0,0,0,0,
          255,255,255,255, 0, 255,255,255,255, 1, 0,242,5,42,1,0,0,0, 1, 81, 0,0,0,0]), 61)"
  by (subst segwit_legacy_branch_is_base) (simp_all add: read_tx_and_hash_coinbase)

section \<open>Header extractors\<close>

lemma primecoin_read_header_span:
  assumes "read_varint bin (start + static_header_size) = Inr (multiplier_size, c)"
    and "c + multiplier_size \<le> length bin"
  shows "primecoin_read_header bin static_header_size start =
           Inr (bslice bin start (c + multiplier_size), c + multiplier_size)"
proof -
  have "start \<le> c"
    using assms(1)
    by (auto simp: read_varint_def Let_def read_le_uint16_eq read_le_uint32_eq
        read_le_uint64_eq split: if_splits)
  then show ?thesis
    using assms by (simp add: primecoin_read_header_def read_nbytes_def Let_def)
qed

text \<open>
  C8. The header returned by the Equihash and Primecoin extractors should be the span that
  starts at the original cursor and has the length of the static header, the varint and
  the trailer. On the buffer \<open>07 01 aa bb\<close> with the cursor at 1 and a static header of
  size 0, that span is \<open>01 aa\<close>. The Primecoin extractor returns it; the Equihash extractor
  passes the absolute end position to \<^verbatim>\<open>_read_nbytes\<close> as a length and returns the three
  bytes \<open>01 aa bb\<close>, leaving the cursor at 4.
\<close>

theorem equihash_read_header_offset_start:
  "equihash_read_header [7, 1, 170, 187] 0 1 = Inr ([1, 170, 187], 4)
   \<and> primecoin_read_header [7, 1, 170, 187] 0 1 = Inr ([1, 170], 3)"
  by (simp add: equihash_read_header_def primecoin_read_header_def rd_eval)

section \<open>The Litecoin skip outcomes\<close>

text \<open>
  C4. On the SegWit path of the Litecoin deserializer (the byte at \<open>start + 4\<close> is zero),
  with the version, marker and flag read: a flag of 0 raises \<^verbatim>\<open>SkipTxDeserialize\<close>; with
  a nonzero flag, once the inputs, the outputs and the witness section are read (the
  witness section being what \<^verbatim>\<open>_read_witness\<close> reads when the witness bit \<open>flag AND 1\<close> is
  set, and the empty list with no byte consumed when it is not), a set MWEB bit
  \<open>flag AND 8\<close> makes one more byte be read: a nonzero byte raises \<^verbatim>\<open>SkipTxDeserialize\<close>, a
  zero byte does not, and decoding goes on to the locktime and returns a \<^verbatim>\<open>TxSegWit\<close>
  carrying that witness list.
\<close>

theorem litecoin_mweb_skip_law:
  assumes "cursor + 4 < length bin" and "bin ! (cursor + 4) = 0"
    and "read_le_int32 bin cursor = Inr (ver, c1)"
    and "read_byte bin c1 = Inr (marker, c2)"
    and "read_byte bin c2 = Inr (flag, c3)"
  shows "(flag = 0 \<longrightarrow> litecoin_read_tx_parts hash_fn bin cursor = Inl SkipTxDeserialize)
    \<and> (flag \<noteq> 0 \<longrightarrow> (\<forall>inputs c4 outputs c5 witness c6.
          read_inputs (read_input bin) bin c3 = Inr (inputs, c4) \<longrightarrow>
          read_outputs (read_output bin) bin c4 = Inr (outputs, c5) \<longrightarrow>
          (if flag AND 1 \<noteq> 0 then read_witness bin (length inputs) c5 = Inr (witness, c6)
           else witness = [] \<and> c6 = c5) \<longrightarrow>
          (flag AND 8 \<noteq> 0 \<longrightarrow> (\<forall>mwtx c7. read_byte bin c6 = Inr (mwtx, c7) \<longrightarrow>
             (mwtx \<noteq> 0 \<longrightarrow>
                litecoin_read_tx_parts hash_fn bin cursor = Inl SkipTxDeserialize) \<and>
             (mwtx = 0 \<longrightarrow>
                litecoin_read_tx_parts hash_fn bin cursor \<noteq> Inl SkipTxDeserialize \<and>
                (\<forall>locktime c8. read_le_uint32 bin c7 = Inr (locktime, c8) \<longrightarrow>
                   litecoin_read_tx_parts hash_fn bin cursor =
                     Inr ((TxSegWitObj \<lparr>sw_version = ver, sw_marker = marker,
                             sw_flag = flag, sw_inputs = inputs, sw_outputs = outputs,
                             sw_witness = witness, sw_locktime = locktime\<rparr>,
                           hash_fn (bslice bin cursor c1 @ bslice bin c3 c5 @ bslice bin c7 c8),
                           (3 * (c5 - c3) + length bin) div 4), c8))))) \<and>
          (flag AND 8 = 0 \<longrightarrow>
             (\<forall>locktime c8. read_le_uint32 bin c6 = Inr (locktime, c8) \<longrightarrow>
                litecoin_read_tx_parts hash_fn bin cursor =
                  Inr ((TxSegWitObj \<lparr>sw_version = ver, sw_marker = marker,
                          sw_flag = flag, sw_inputs = inputs, sw_outputs = outputs,
                          sw_witness = witness, sw_locktime = locktime\<rparr>,
                        hash_fn (bslice bin cursor c1 @ bslice bin c3 c5 @ bslice bin c6 c8),
                        (3 * (c5 - c3) + length bin) div 4), c8)))))"
  using assms
  by (auto simp: litecoin_read_tx_parts_def Let_def read_le_uint32_eq split: if_splits)

theorem litecoin_mweb_skip_law_witness:
  "litecoin_read_tx_parts id [1,0,0,0, 0,0, 0,0, 0,0,0,0] 0 = Inl SkipTxDeserialize
   \<and> litecoin_read_tx_parts id [1,0,0,0, 0,8, 0,0, 1, 0,0,0,0] 0 = Inl SkipTxDeserialize
   \<and> litecoin_read_tx_parts id [1,0,0,0, 0,8, 0,0, 0, 0,0,0,0] 0 =
        Inr ((TxSegWitObj \<lparr>sw_version = 1, sw_marker = 0, sw_flag = 8, sw_inputs = [],
                sw_outputs = [], sw_witness = [], sw_locktime = 0\<rparr>,
              [1,0,0,0, 0,0, 0,0,0,0], 4), 13)"
proof -
  have a: "litecoin_read_tx_parts id [1,0,0,0, 0,0, 0,0, 0,0,0,0] 0 = Inl SkipTxDeserialize"
    using litecoin_mweb_skip_law [where bin = "[1,0,0,0, 0,0, 0,0, 0,0,0,0]" and cursor = 0
        and ver = 1 and ?c1.0 = 4 and marker = 0 and ?c2.0 = 5 and flag = 0 and ?c3.0 = 6
        and hash_fn = id]
    by (simp add: rd_eval)
  have b: "litecoin_read_tx_parts id [1,0,0,0, 0,8, 0,0, 1, 0,0,0,0] 0 = Inl SkipTxDeserialize"
    using litecoin_mweb_skip_law [where bin = "[1,0,0,0, 0,8, 0,0, 1, 0,0,0,0]" and cursor = 0
        and ver = 1 and ?c1.0 = 4 and marker = 0 and ?c2.0 = 5 and flag = 8 and ?c3.0 = 6
        and hash_fn = id]
    by (simp add: rd_eval)
  have c: "litecoin_read_tx_parts id [1,0,0,0, 0,8, 0,0, 0, 0,0,0,0] 0 =
        Inr ((TxSegWitObj \<lparr>sw_version = 1, sw_marker = 0, sw_flag = 8, sw_inputs = [],
                sw_outputs = [], sw_witness = [], sw_locktime = 0\<rparr>,
              [1,0,0,0, 0,0, 0,0,0,0], 4), 13)"
    using litecoin_mweb_skip_law [where bin = "[1,0,0,0, 0,8, 0,0, 0, 0,0,0,0]" and cursor = 0
        and ver = 1 and ?c1.0 = 4 and marker = 0 and ?c2.0 = 5 and flag = 8 and ?c3.0 = 6
        and hash_fn = id]
    by (simp add: rd_eval)
  from a b c show ?thesis by simp
qed

end
